theory Spec2Isabelle
  imports Main "HOL-Library.AList"
begin

section \<open>Values, documents and the document store\<close>

text \<open>
  A document is a Python dict with string keys: an association list with distinct keys,
  in insertion order. The values that occur in this program are strings, booleans,
  lists of strings, \<open>None\<close> and the store's object identities. An identity is a
  12-byte value, modelled as a natural number below \<open>16 ^ 24\<close>.
\<close>

datatype val =
    VNone
  | VBool bool
  | VStr string
  | VStrs "string list"
  | VOid nat

type_synonym doc = "(string \<times> val) list"

subsection \<open>Hexadecimal identities (bson.objectid.ObjectId)\<close>

definition hex_digit :: "nat \<Rightarrow> char" where
  "hex_digit d = ''0123456789abcdef'' ! (d mod 16)"

primrec to_hex :: "nat \<Rightarrow> nat \<Rightarrow> string" where
  "to_hex 0 n = []"
| "to_hex (Suc k) n = to_hex k (n div 16) @ [hex_digit n]"

definition hex_val :: "char \<Rightarrow> nat option" where
  "hex_val c =
     (let n = of_char c :: nat in
      if 48 \<le> n \<and> n \<le> 57 then Some (n - 48)
      else if 97 \<le> n \<and> n \<le> 102 then Some (n - 87)
      else if 65 \<le> n \<and> n \<le> 70 then Some (n - 55)
      else None)"

fun from_hex :: "nat \<Rightarrow> string \<Rightarrow> nat option" where
  "from_hex acc [] = Some acc"
| "from_hex acc (c # cs) =
     (case hex_val c of None \<Rightarrow> None | Some d \<Rightarrow> from_hex (16 * acc + d) cs)"

text \<open>
  \<open>ObjectId(s)\<close> for a string \<open>s\<close>: a 24-character hexadecimal string gives the
  identity, anything else raises \<open>InvalidId\<close> (here \<open>None\<close>). \<open>str\<close> of an identity
  is its 24 lower-case hexadecimal digits.
\<close>

definition ObjectId :: "string \<Rightarrow> nat option" where
  "ObjectId s = (if length s = 24 then from_hex 0 s else None)"

definition oid_str :: "nat \<Rightarrow> string" where
  "oid_str n = to_hex 24 n"

subsection \<open>Python's str and repr on values\<close>

definition hex2 :: "nat \<Rightarrow> string" where
  "hex2 n = [hex_digit (n div 16), hex_digit n]"

definition repr_char :: "char \<Rightarrow> char \<Rightarrow> string" where
  "repr_char q c =
     (let n = of_char c :: nat in
      if c = q \<or> c = CHR 0x5C then [CHR 0x5C, c]
      else if n = 9 then [CHR 0x5C, CHR ''t'']
      else if n = 10 then [CHR 0x5C, CHR ''n'']
      else if n = 13 then [CHR 0x5C, CHR ''r'']
      else if n < 32 \<or> (127 \<le> n \<and> n \<le> 160) \<or> n = 173 then [CHR 0x5C, CHR ''x''] @ hex2 n
      else [c])"

definition py_repr :: "string \<Rightarrow> string" where
  "py_repr s =
     (let q = (if CHR 0x27 \<in> set s \<and> CHR 0x22 \<notin> set s then CHR 0x22 else CHR 0x27)
      in [q] @ concat (map (repr_char q) s) @ [q])"

fun join_comma :: "string list \<Rightarrow> string" where
  "join_comma [] = []"
| "join_comma [x] = x"
| "join_comma (x # y # zs) = x @ '', '' @ join_comma (y # zs)"

fun py_str :: "val \<Rightarrow> string" where
  "py_str VNone = ''None''"
| "py_str (VBool b) = (if b then ''True'' else ''False'')"
| "py_str (VStr s) = s"
| "py_str (VStrs xs) = ''['' @ join_comma (map py_repr xs) @ '']''"
| "py_str (VOid n) = oid_str n"

subsection \<open>Exceptions\<close>

text \<open>
  Every exception the handlers can see. \<open>HTTPException\<close> carries the status code and
  the detail; a detail is a literal message or \<open>str(e)\<close> of a caught exception.
  \<open>StoreError\<close> is an exception raised by a store operation, with its text (so that
  \<open>StrOf (StoreError m)\<close> is the text \<open>m\<close>);
  \<open>ValidationError\<close> lists the fields of a record that failed validation;
  \<open>TypeError\<close> is the subscript of \<open>None\<close>; \<open>NotImplementedError\<close> is what the
  store's database object raises when its truth value is taken.
\<close>

datatype exn =
    HTTPException nat detail
  | InvalidId string
  | TypeError
  | NotImplementedError
  | StoreError string
  | ValidationError "string list"
and detail =
    Msg string
  | StrOf exn

subsection \<open>The store and the process state\<close>

text \<open>
  The store holds named collections of documents (created on the first insert, as the
  document store does) and a counter from which fresh identities are drawn. The process
  state is the module-level handle \<open>db\<close> (\<open>None\<close> when no store is configured), the
  environment variables, and the behaviour of the store's connection: \<open>faults i\<close> is
  \<open>Some msg\<close> when the \<open>i\<close>-th store operation raises an exception with text \<open>msg\<close>;
  \<open>clock\<close> counts the store operations performed so far.
\<close>

record store =
  db_name :: string
  collections :: "(string \<times> doc list) list"
  next_oid :: nat

record world =
  db :: "store option"
  environ :: "(string \<times> string) list"
  faults :: "nat \<Rightarrow> string option"
  clock :: nat

definition coll :: "store \<Rightarrow> string \<Rightarrow> doc list" where
  "coll s c = (case map_of (collections s) c of None \<Rightarrow> [] | Some ds \<Rightarrow> ds)"

definition store_op :: "world \<Rightarrow> string option \<times> world" where
  \<comment> \<open>one round trip to the store: it raises or not, and the clock advances\<close>
  "store_op w = (faults w (clock w), w\<lparr>clock := Suc (clock w)\<rparr>)"

definition getenv :: "world \<Rightarrow> string \<Rightarrow> string option" where
  "getenv w k = map_of (environ w) k"

text \<open>
  The operations of the store's client library used by the handlers. \<open>Inl m\<close> is an
  exception with text \<open>m\<close>.
\<close>

definition count_documents :: "store \<Rightarrow> string \<Rightarrow> world \<Rightarrow> (string + nat) \<times> world" where
  "count_documents s c w =
     (case store_op w of
        (Some m, w') \<Rightarrow> (Inl m, w')
      | (None, w') \<Rightarrow> (Inr (length (coll s c)), w'))"

definition find_one :: "store \<Rightarrow> string \<Rightarrow> doc \<Rightarrow> world \<Rightarrow> (string + doc option) \<times> world" where
  "find_one s c flt w =
     (case store_op w of
        (Some m, w') \<Rightarrow> (Inl m, w')
      | (None, w') \<Rightarrow>
          (Inr (List.find (\<lambda>d. list_all (\<lambda>(k, v). map_of d k = Some v) flt) (coll s c)), w'))"

definition list_collection_names :: "store \<Rightarrow> world \<Rightarrow> (string + string list) \<times> world" where
  "list_collection_names s w =
     (case store_op w of
        (Some m, w') \<Rightarrow> (Inl m, w')
      | (None, w') \<Rightarrow> (Inr (map fst (collections s)), w'))"

definition insert_one :: "string \<Rightarrow> doc \<Rightarrow> store \<Rightarrow> nat \<times> store" where
  \<comment> \<open>the document gets a fresh identity under the key \<open>_id\<close> and is appended\<close>
  "insert_one c d s =
     (let oid = next_oid s;
          d' = AList.update ''_id'' (VOid oid) d
      in (oid, s\<lparr>collections := AList.update c (coll s c @ [d']) (collections s),
                 next_oid := Suc oid\<rparr>))"


section \<open>schemas.py\<close>

text \<open>
  \<open>Job\<close>: the employment type is one of five literals (default \<open>Full-time\<close>),
  \<open>requirements\<close> defaults to the empty list and \<open>featured\<close> to \<open>False\<close>.
\<close>

datatype employment = Full_time | Part_time | Contract | Internship | Freelance

fun employment_str :: "employment \<Rightarrow> string" where
  "employment_str Full_time = ''Full-time''"
| "employment_str Part_time = ''Part-time''"
| "employment_str Contract = ''Contract''"
| "employment_str Internship = ''Internship''"
| "employment_str Freelance = ''Freelance''"

record Job =
  title :: string
  department :: string
  location :: string
  jtype :: employment
  description :: string
  requirements :: "string list"
  featured :: bool

definition Job_doc :: "Job \<Rightarrow> doc" where
  \<comment> \<open>the record as a dict, fields in declaration order\<close>
  "Job_doc j =
     [(''title'', VStr (title j)),
      (''department'', VStr (department j)),
      (''location'', VStr (location j)),
      (''type'', VStr (employment_str (jtype j))),
      (''description'', VStr (description j)),
      (''requirements'', VStrs (requirements j)),
      (''featured'', VBool (featured j))]"

text \<open>
  \<open>ApplyPayload\<close> (main.py) is the request body after the framework has parsed it;
  \<open>Application\<close> (schemas.py) is the record that is persisted. Its fields \<open>email\<close>,
  \<open>portfolio\<close> and \<open>resume_url\<close> are validated by the validation library's
  \<open>EmailStr\<close> and \<open>HttpUrl\<close>, which are parameters here: each maps a string to its
  validated form, or to \<open>None\<close> when it rejects it.
\<close>

record ApplyPayload =
  job_id :: string
  name :: string
  email :: string
  portfolio :: "string option"
  resume_url :: "string option"
  cover_letter :: "string option"

record validators =
  EmailStr :: "string \<Rightarrow> string option"
  HttpUrl :: "string \<Rightarrow> string option"

record Application =
  app_job_id :: string
  app_name :: string
  app_email :: string
  app_portfolio :: "string option"
  app_resume_url :: "string option"
  app_cover_letter :: "string option"

definition optional :: "('a \<Rightarrow> 'b option) \<Rightarrow> 'a option \<Rightarrow> 'b option option" where
  \<comment> \<open>validation of an \<open>Optional[T]\<close> field: \<open>None\<close> is accepted as it is\<close>
  "optional f x = (case x of None \<Rightarrow> Some None | Some v \<Rightarrow> map_option Some (f v))"

definition Application_errors :: "validators \<Rightarrow> ApplyPayload \<Rightarrow> string list" where
  "Application_errors V p =
     (if EmailStr V (email p) = None then [''email''] else []) @
     (if optional (HttpUrl V) (portfolio p) = None then [''portfolio''] else []) @
     (if optional (HttpUrl V) (resume_url p) = None then [''resume_url''] else [])"

definition mk_Application :: "validators \<Rightarrow> ApplyPayload \<Rightarrow> exn + Application" where
  \<comment> \<open>the constructor call \<open>Application(job_id=..., ..., cover_letter=...)\<close>\<close>
  "mk_Application V p =
     (case (EmailStr V (email p), optional (HttpUrl V) (portfolio p),
            optional (HttpUrl V) (resume_url p)) of
        (Some e, Some pf, Some r) \<Rightarrow>
          Inr \<lparr>app_job_id = job_id p, app_name = name p, app_email = e,
               app_portfolio = pf, app_resume_url = r, app_cover_letter = cover_letter p\<rparr>
      | _ \<Rightarrow> Inl (ValidationError (Application_errors V p)))"

definition opt_val :: "string option \<Rightarrow> val" where
  "opt_val x = (case x of None \<Rightarrow> VNone | Some s \<Rightarrow> VStr s)"

definition Application_doc :: "Application \<Rightarrow> doc" where
  "Application_doc a =
     [(''job_id'', VStr (app_job_id a)),
      (''name'', VStr (app_name a)),
      (''email'', VStr (app_email a)),
      (''portfolio'', opt_val (app_portfolio a)),
      (''resume_url'', opt_val (app_resume_url a)),
      (''cover_letter'', opt_val (app_cover_letter a))]"

section \<open>database.py\<close>

definition create_document :: "string \<Rightarrow> doc \<Rightarrow> world \<Rightarrow> (exn + string) \<times> world" where
  \<comment> \<open>Modelled from the spec: \<open>create_document\<close> of database.py, which is not among the
     sources. It serializes the validated record and inserts it into the named
     collection, and returns the newly assigned identity as a string; it fails with a
     store error, which includes the case of no configured store. The record is passed
     in serialized form. A failed insert stores nothing.\<close>
  "create_document c d w =
     (case db w of
        None \<Rightarrow> (Inl (StoreError ''Database not available''), w)
      | Some s \<Rightarrow>
          (case store_op w of
             (Some m, w') \<Rightarrow> (Inl (StoreError m), w')
           | (None, w') \<Rightarrow>
               (case insert_one c d s of
                  (oid, s') \<Rightarrow> (Inr (oid_str oid), w'\<lparr>db := Some s'\<rparr>))))"

definition matches :: "doc \<Rightarrow> doc \<Rightarrow> bool" where
  \<comment> \<open>the document's fields exactly match every key/value pair of the filter\<close>
  "matches flt d = list_all (\<lambda>(k, v). map_of d k = Some v) flt"

definition get_documents :: "string \<Rightarrow> doc \<Rightarrow> world \<Rightarrow> (exn + doc list) \<times> world" where
  \<comment> \<open>Modelled from the spec: \<open>get_documents\<close> of database.py, which is not among the
     sources. It returns all records of the named collection whose fields exactly match
     every key/value pair of the filter, in the store's order (the empty filter returns
     all records), or fails with a store error.\<close>
  "get_documents c flt w =
     (case db w of
        None \<Rightarrow> (Inl (StoreError ''Database not available''), w)
      | Some s \<Rightarrow>
          (case store_op w of
             (Some m, w') \<Rightarrow> (Inl (StoreError m), w')
           | (None, w') \<Rightarrow> (Inr (filter (matches flt) (coll s c)), w')))"

section \<open>main.py\<close>

subsection \<open>serialize_doc\<close>

definition serialize_doc :: "doc option \<Rightarrow> doc option" where
  "serialize_doc doc =
     (case doc of
        None \<Rightarrow> None
      | Some d \<Rightarrow>
          (case map_of d ''_id'' of
             Some v \<Rightarrow> Some (AList.update ''id'' (VStr (py_str v)) (AList.delete ''_id'' d))
           | None \<Rightarrow> Some d))"

subsection \<open>test_database\<close>

text \<open>
  The status texts start with one of three pictographs (a check mark, a cross mark, a
  warning sign), written here as a constructor in front of the rest of the text.
\<close>

datatype mark = Check | Cross | Warning

datatype status_text = Plain string | Marked mark string

record diag =
  backend :: status_text
  database :: status_text
  database_url :: "status_text option"
  database_name :: "status_text option"
  connection_status :: string
  collection_names :: "string list"

definition test_database :: "world \<Rightarrow> (exn + diag) \<times> world" where
  \<comment> \<open>Nothing in the body of the outer \<open>try\<close> raises outside the inner \<open>try\<close>, so the
     outer handler has no branch. The store record always has a name.\<close>
  "test_database w =
     (let response = \<lparr>backend = Marked Check '' Running'',
                      database = Marked Cross '' Not Available'',
                      database_url = None,
                      database_name = None,
                      connection_status = ''Not Connected'',
                      collection_names = []\<rparr>;
          (response, w) =
            (case db w of
               Some s \<Rightarrow>
                 (let response = response\<lparr>database := Marked Check '' Available'',
                                          database_url := Some (Marked Check '' Configured''),
                                          database_name := Some (Plain (db_name s)),
                                          connection_status := ''Connected''\<rparr>
                  in case list_collection_names s w of
                       (Inr cs, w') \<Rightarrow>
                         (response\<lparr>collection_names := take 10 cs,
                                   database := Marked Check '' Connected & Working''\<rparr>, w')
                     | (Inl e, w') \<Rightarrow>
                         (response\<lparr>database :=
                            Marked Warning (''  Connected but Error: '' @ take 50 e)\<rparr>, w'))
             | None \<Rightarrow>
                 (response\<lparr>database := Marked Warning ''  Available but not initialized''\<rparr>, w));
          truthy = (\<lambda>v. case v of None \<Rightarrow> False | Some s \<Rightarrow> s \<noteq> []);
          response = response\<lparr>database_url :=
            Some (if truthy (getenv w ''DATABASE_URL'') then Marked Check '' Set''
                  else Marked Cross '' Not Set'')\<rparr>;
          response = response\<lparr>database_name :=
            Some (if truthy (getenv w ''DATABASE_NAME'') then Marked Check '' Set''
                  else Marked Cross '' Not Set'')\<rparr>
      in (Inr response, w))"

subsection \<open>list_jobs\<close>

definition filter_entry :: "string \<Rightarrow> string option \<Rightarrow> doc" where
  \<comment> \<open>\<open>if p: filter_query[k] = p\<close>: \<open>None\<close> and the empty string are falsy\<close>
  "filter_entry k p = (case p of None \<Rightarrow> [] | Some v \<Rightarrow> if v \<noteq> [] then [(k, VStr v)] else [])"

definition filter_query :: "string option \<Rightarrow> string option \<Rightarrow> string option \<Rightarrow> doc" where
  "filter_query dep typ loc =
     filter_entry ''department'' dep @ filter_entry ''type'' typ @ filter_entry ''location'' loc"

definition list_jobs ::
  "string option \<Rightarrow> string option \<Rightarrow> string option \<Rightarrow> world \<Rightarrow> (exn + doc option list) \<times> world"
where
  "list_jobs dep typ loc w =
     (case get_documents ''job'' (filter_query dep typ loc) w of
        (Inr jobs, w') \<Rightarrow> (Inr (map (\<lambda>j. serialize_doc (Some j)) jobs), w')
      | (Inl e, w') \<Rightarrow> (Inl (HTTPException 500 (StrOf e)), w'))"

subsection \<open>seed_jobs\<close>

record seed_response =
  inserted :: nat
  message :: "string option"

definition samples :: "Job list" where
  "samples =
     [\<lparr>title = ''Frontend Developer'',
       department = ''Engineering'',
       location = ''Remote'',
       jtype = Full_time,
       description = ''Build immersive UIs with React and Three.js for Stuvify.'',
       requirements = [''3+ years React'', ''Experience with R3F/Three.js'', ''Strong UI skills''],
       featured = True\<rparr>,
      \<lparr>title = ''3D Designer'',
       department = ''Design'',
       location = ''Hybrid - SF'',
       jtype = Contract,
       description = ''Design GLTF assets and futuristic scenes for our career hub.'',
       requirements = [''GLTF/GLB workflow'', ''Blender/C4D'', ''Understanding of web performance''],
       featured = False\<rparr>,
      \<lparr>title = ''Growth Marketer'',
       department = ''Marketing'',
       location = ''Remote'',
       jtype = Part_time,
       description = ''Drive campaigns and partnerships for student hiring.'',
       requirements = [''Lifecycle marketing'', ''Content strategy'', ''Analytics''],
       featured = False\<rparr>]"

fun seed_loop :: "Job list \<Rightarrow> nat \<Rightarrow> world \<Rightarrow> (exn + nat) \<times> world" where
  \<comment> \<open>\<open>for job in samples: create_document("job", job); inserted += 1\<close>\<close>
  "seed_loop [] n w = (Inr n, w)"
| "seed_loop (j # js) n w =
     (case create_document ''job'' (Job_doc j) w of
        (Inl e, w') \<Rightarrow> (Inl e, w')
      | (Inr _, w') \<Rightarrow> seed_loop js (n + 1) w')"

definition truth_of_db :: "store option \<Rightarrow> exn + bool" where
  \<comment> \<open>the truth value of the handle, as \<open>if db\<close> takes it: \<open>None\<close> is falsy; the
     database object of the store's client library does not implement truth value
     testing and raises \<open>NotImplementedError\<close> (it is to be compared with \<open>None\<close>, as
     \<open>test_database\<close> does)\<close>
  "truth_of_db h = (case h of None \<Rightarrow> Inr False | Some s \<Rightarrow> Inl NotImplementedError)"

definition seed_jobs :: "world \<Rightarrow> (exn + seed_response) \<times> world" where
  \<comment> \<open>\<open>existing = db["job"].count_documents({}) if db else 0\<close> takes the truth value
     of \<open>db\<close> first; every exception of the body becomes a 500\<close>
  "seed_jobs w =
     (case (case truth_of_db (db w) of
              Inl e \<Rightarrow> (Inl e, w)
            | Inr b \<Rightarrow>
                if b then
                  (case db w of
                     None \<Rightarrow> (Inl TypeError, w)
                   | Some s \<Rightarrow>
                       (case count_documents s ''job'' w of
                          (Inl m, w') \<Rightarrow> (Inl (StoreError m), w')
                        | (Inr n, w') \<Rightarrow> (Inr n, w')))
                else (Inr 0, w)) of
        (Inl e, w') \<Rightarrow> (Inl (HTTPException 500 (StrOf e)), w')
      | (Inr existing, w') \<Rightarrow>
          if existing > 0 then
            (Inr \<lparr>inserted = 0, message = Some ''Jobs already exist''\<rparr>, w')
          else
            (case seed_loop samples 0 w' of
               (Inl e, w'') \<Rightarrow> (Inl (HTTPException 500 (StrOf e)), w'')
             | (Inr n, w'') \<Rightarrow> (Inr \<lparr>inserted = n, message = None\<rparr>, w'')))"

subsection \<open>apply\<close>

record apply_response =
  status :: string
  application_id :: string

definition lookup_job :: "world \<Rightarrow> ApplyPayload \<Rightarrow> (exn + doc option) \<times> world" where
  \<comment> \<open>the body of the first \<open>try\<close>: subscripting \<open>db\<close>, then \<open>ObjectId\<close>, then
     \<open>find_one\<close>, then the \<open>raise\<close> of the 404 when the job is falsy (\<open>None\<close> or an
     empty dict)\<close>
  "lookup_job w p =
     (case db w of
        None \<Rightarrow> (Inl TypeError, w)
      | Some s \<Rightarrow>
          (case ObjectId (job_id p) of
             None \<Rightarrow> (Inl (InvalidId (job_id p)), w)
           | Some oid \<Rightarrow>
               (case find_one s ''job'' [(''_id'', VOid oid)] w of
                  (Inl m, w') \<Rightarrow> (Inl (StoreError m), w')
                | (Inr job, w') \<Rightarrow>
                    if job = None \<or> job = Some [] then
                      (Inl (HTTPException 404 (Msg ''Job not found'')), w')
                    else (Inr job, w'))))"

definition apply_submit :: "validators \<Rightarrow> ApplyPayload \<Rightarrow> world \<Rightarrow> (exn + apply_response) \<times> world" where
  \<comment> \<open>the handler \<open>apply\<close>; \<open>except Exception\<close> of the first \<open>try\<close> catches every
     exception of its body\<close>
  "apply_submit V p w =
     (case lookup_job w p of
        (Inl _, w') \<Rightarrow> (Inl (HTTPException 400 (Msg ''Invalid job id'')), w')
      | (Inr job, w') \<Rightarrow>
          (case mk_Application V p of
             Inl e \<Rightarrow> (Inl (HTTPException 500 (StrOf e)), w')
           | Inr app_doc \<Rightarrow>
               (case create_document ''application'' (Application_doc app_doc) w' of
                  (Inl e, w'') \<Rightarrow> (Inl (HTTPException 500 (StrOf e)), w'')
                | (Inr inserted_id, w'') \<Rightarrow>
                    (Inr \<lparr>status = ''ok'', application_id = inserted_id\<rparr>, w''))))"

section \<open>Observations and example states\<close>

definition colls_of :: "world \<Rightarrow> string \<Rightarrow> doc list" where
  \<comment> \<open>the documents of a collection, as a direct read of the store would show them\<close>
  "colls_of w c = (case db w of None \<Rightarrow> [] | Some s \<Rightarrow> coll s c)"

definition selects :: "string \<Rightarrow> string option \<Rightarrow> doc \<Rightarrow> bool" where
  \<comment> \<open>the constraint that a query parameter puts on a record: none when the parameter
     is absent or empty, equality of the field with the value otherwise\<close>
  "selects k p j = (case p of None \<Rightarrow> True | Some v \<Rightarrow> v = [] \<or> map_of j k = Some (VStr v))"

definition no_faults :: "nat \<Rightarrow> string option" where
  "no_faults i = None"

definition fresh_world :: world where
  \<comment> \<open>a configured, empty store whose connection never fails\<close>
  "fresh_world =
     \<lparr>db = Some \<lparr>db_name = ''stuvify'', collections = [], next_oid = 0\<rparr>,
      environ = [], faults = no_faults, clock = 0\<rparr>"

definition seeded_world :: world where
  \<comment> \<open>a store that holds the three sample jobs under the identities 0, 1 and 2\<close>
  "seeded_world =
     \<lparr>db = Some \<lparr>db_name = ''stuvify'',
         collections =
           [(''job'', map (\<lambda>(i, j). Job_doc j @ [(''_id'', VOid i)]) (zip [0, 1, 2] samples))],
         next_oid = 3\<rparr>,
      environ = [], faults = no_faults, clock = 4\<rparr>"


definition sample_validators :: validators where
  \<comment> \<open>stand-ins for the validation library, used to run the examples: an address needs
     an at sign, a URL an http or https scheme\<close>
  "sample_validators =
     \<lparr>EmailStr = (\<lambda>s. if CHR ''@'' \<in> set s then Some s else None),
      HttpUrl = (\<lambda>s. if take 7 s = ''http://'' \<or> take 8 s = ''https://'' then Some s else None)\<rparr>"

definition sample_payload :: ApplyPayload where
  "sample_payload =
     \<lparr>job_id = ''000000000000000000000000'', name = ''Ada'', email = ''ada@example.com'',
      portfolio = None, resume_url = None, cover_letter = None\<rparr>"

definition bad_url_payload :: ApplyPayload where
  "bad_url_payload = sample_payload\<lparr>portfolio := Some ''not a url''\<rparr>"

definition sample_doc :: doc where
  "sample_doc = [(''title'', VStr ''3D Designer''), (''_id'', VOid 10)]"

section \<open>Basic facts about the store\<close>

lemma coll_insert_one:
  "coll (snd (insert_one c d s)) c' =
     (if c' = c then coll s c @ [AList.update ''_id'' (VOid (next_oid s)) d] else coll s c')"
  by (simp add: insert_one_def coll_def Let_def update_conv')



lemma ObjectId_zeros: "ObjectId ''000000000000000000000000'' = Some 0"
  by (simp add: ObjectId_def hex_val_def)

section \<open>Identity serialization\<close>

text \<open>
  Claim C8. Serializing a record for the outside replaces the store's identity field
  \<open>_id\<close> by a public field \<open>id\<close> that holds the identity as a string: the result never
  has the field \<open>_id\<close>, it has \<open>id\<close> with \<open>str\<close> of the identity whenever the record
  had an identity, and every other field is as it was. Every record that \<open>list_jobs\<close>
  returns is such a result.
\<close>

theorem serialize_doc_public_id:
  "(\<exists>d'. serialize_doc (Some d) = Some d' \<and> map_of d' ''_id'' = None \<and>
      (\<forall>v. map_of d ''_id'' = Some v \<longrightarrow> map_of d' ''id'' = Some (VStr (py_str v))) \<and>
      (\<forall>k. k \<noteq> ''_id'' \<and> k \<noteq> ''id'' \<longrightarrow> map_of d' k = map_of d k)) \<and>
   (\<forall>rs. fst (list_jobs dep typ loc w) = Inr rs \<longrightarrow>
      (\<forall>r \<in> set rs. \<exists>d'. r = Some d' \<and> map_of d' ''_id'' = None))"
proof
  show "\<exists>d'. serialize_doc (Some d) = Some d' \<and> map_of d' ''_id'' = None \<and>
      (\<forall>v. map_of d ''_id'' = Some v \<longrightarrow> map_of d' ''id'' = Some (VStr (py_str v))) \<and>
      (\<forall>k. k \<noteq> ''_id'' \<and> k \<noteq> ''id'' \<longrightarrow> map_of d' k = map_of d k)"
    by (auto simp: serialize_doc_def update_conv' delete_conv' split: option.splits)
next
  have one: "\<exists>d'. serialize_doc (Some j) = Some d' \<and> map_of d' ''_id'' = None" for j
    by (auto simp: serialize_doc_def update_conv' delete_conv' split: option.splits)
  show "\<forall>rs. fst (list_jobs dep typ loc w) = Inr rs \<longrightarrow>
      (\<forall>r \<in> set rs. \<exists>d'. r = Some d' \<and> map_of d' ''_id'' = None)"
    using one by (auto simp: list_jobs_def split: prod.splits sum.splits)
qed

theorem serialize_doc_public_id_witness:
  "map_of sample_doc ''_id'' = Some (VOid 10) \<and>
   serialize_doc (Some sample_doc) =
     Some [(''title'', VStr ''3D Designer''), (''id'', VStr (oid_str 10))] \<and>
   length (projr (fst (list_jobs None None None seeded_world))) = 3 \<and>
   list_all (\<lambda>r. r \<noteq> None \<and> map_of (the r) ''_id'' = None)
     (projr (fst (list_jobs None None None seeded_world)))"
proof -
  have l: "fst (list_jobs None None None seeded_world) =
      Inr (map (\<lambda>j. serialize_doc (Some j)) (colls_of seeded_world ''job''))"
    by (simp add: seeded_world_def list_jobs_def get_documents_def filter_query_def
        filter_entry_def store_op_def no_faults_def matches_def colls_of_def)
  have n: "length (colls_of seeded_world ''job'') = 3"
    by (simp add: seeded_world_def colls_of_def coll_def samples_def)
  have "\<forall>r \<in> set (projr (fst (list_jobs None None None seeded_world))).
          \<exists>d'. r = Some d' \<and> map_of d' ''_id'' = None"
    using serialize_doc_public_id [of sample_doc None None None seeded_world] l by simp
  then have "list_all (\<lambda>r. r \<noteq> None \<and> map_of (the r) ''_id'' = None)
     (projr (fst (list_jobs None None None seeded_world)))"
    by (auto simp: list_all_iff)
  moreover have "serialize_doc (Some sample_doc) =
     Some [(''title'', VStr ''3D Designer''), (''id'', VStr (oid_str 10))]"
    by (simp add: serialize_doc_def sample_doc_def)
  ultimately show ?thesis using l n by (simp add: sample_doc_def)
qed

section \<open>The diagnostic check\<close>

text \<open>
  Claim C6. The diagnostic check never raises. In every state it returns a diagnostic
  object: with no store configured the database line says that the store is not
  initialized, with a store whose enumeration of collections throws it carries the first
  50 characters of the error text, and otherwise it reports a working connection.
\<close>

theorem test_database_never_raises:
  "\<exists>r. fst (test_database w) = Inr r \<and>
     backend r = Marked Check '' Running'' \<and>
     database r =
       (case db w of
          None \<Rightarrow> Marked Warning ''  Available but not initialized''
        | Some s \<Rightarrow>
            (case faults w (clock w) of
               None \<Rightarrow> Marked Check '' Connected & Working''
             | Some m \<Rightarrow> Marked Warning (''  Connected but Error: '' @ take 50 m)))"
  by (simp add: test_database_def Let_def list_collection_names_def store_op_def
      split: option.splits prod.splits sum.splits)

text \<open>
  Claim C9. The diagnostic check mutates no state: the store handle with all its
  collections, the environment and the behaviour of the connection are what they were.
\<close>

theorem test_database_read_only:
  "db (snd (test_database w)) = db w \<and>
   colls_of (snd (test_database w)) c = colls_of w c \<and>
   environ (snd (test_database w)) = environ w \<and>
   faults (snd (test_database w)) = faults w"
  by (auto simp add: test_database_def Let_def list_collection_names_def store_op_def colls_of_def
      split: option.splits prod.splits sum.splits)

section \<open>Submitting an application\<close>

lemma apply_never_404:
  "fst (apply_submit V p w) \<noteq> Inl (HTTPException 404 d)"
  by (auto simp: apply_submit_def split: prod.splits sum.splits)

lemma apply_malformed_id:
  "ObjectId (job_id p) = None \<Longrightarrow>
     apply_submit V p w = (Inl (HTTPException 400 (Msg ''Invalid job id'')), w)"
  by (simp add: apply_submit_def lookup_job_def split: option.splits)

text \<open>
  Claim C1. An application for a well-formed identity that matches no job is to fail
  with 404. The handler raises its 404 inside the \<open>try\<close> whose handler catches every
  exception, so the caller gets the 400 of a malformed identity: here for the identity
  of 24 zeros and the empty store.
\<close>

theorem apply_missing_job_gives_400:
  "ObjectId (job_id sample_payload) = Some 0 \<and>
   colls_of fresh_world ''job'' = [] \<and>
   fst (lookup_job fresh_world sample_payload) = Inl (HTTPException 404 (Msg ''Job not found'')) \<and>
   fst (apply_submit sample_validators sample_payload fresh_world) =
     Inl (HTTPException 400 (Msg ''Invalid job id''))"
  by (simp add: apply_submit_def lookup_job_def fresh_world_def sample_payload_def colls_of_def
      ObjectId_zeros find_one_def store_op_def no_faults_def coll_def)

lemma apply_validation_failure:
  assumes "lookup_job w p = (Inr j, w')" and "mk_Application V p = Inl e"
  shows "apply_submit V p w = (Inl (HTTPException 500 (StrOf e)), w')"
  using assms by (simp add: apply_submit_def)

text \<open>
  Claim C2. An application for an existing job whose payload fails the validation of
  the \<open>Application\<close> record is to fail with a client error. The record is built inside
  the second \<open>try\<close>, whose handler turns every exception into a 500: here for the
  portfolio \<open>not a url\<close> and the first job of the seeded store.
\<close>

theorem apply_invalid_url_gives_500:
  "HttpUrl sample_validators ''not a url'' = None \<and>
   fst (lookup_job seeded_world bad_url_payload) =
     Inr (List.find (matches [(''_id'', VOid 0)]) (colls_of seeded_world ''job'')) \<and>
   List.find (matches [(''_id'', VOid 0)]) (colls_of seeded_world ''job'') \<noteq> None \<and>
   fst (apply_submit sample_validators bad_url_payload seeded_world) =
     Inl (HTTPException 500 (StrOf (ValidationError [''portfolio''])))"
proof -
  have v: "mk_Application sample_validators bad_url_payload =
      Inl (ValidationError [''portfolio''])"
    by (simp add: mk_Application_def Application_errors_def sample_validators_def
        bad_url_payload_def sample_payload_def optional_def)
  have f: "List.find (matches [(''_id'', VOid 0)]) (colls_of seeded_world ''job'') \<noteq> None"
    by (simp add: seeded_world_def colls_of_def coll_def samples_def matches_def
        Job_doc_def)
  have l: "lookup_job seeded_world bad_url_payload =
      (Inr (List.find (matches [(''_id'', VOid 0)]) (colls_of seeded_world ''job'')),
       seeded_world\<lparr>clock := 5\<rparr>)"
    using f
    by (simp add: lookup_job_def seeded_world_def bad_url_payload_def
        sample_payload_def ObjectId_zeros find_one_def store_op_def no_faults_def colls_of_def
        coll_def samples_def matches_def Job_doc_def)
  show ?thesis
    using apply_validation_failure [OF l v] l f by (simp add: sample_validators_def)
qed

section \<open>Seeding\<close>

lemma seed_jobs_always_500:
  "seed_jobs w =
     (Inl (HTTPException 500
        (StrOf (case db w of
                  Some s \<Rightarrow> NotImplementedError
                | None \<Rightarrow> StoreError ''Database not available''))), w)"
  by (simp add: seed_jobs_def truth_of_db_def samples_def create_document_def
      split: option.splits)

text \<open>
  Claim C3. With a non-empty job collection a seed call is to insert nothing and to
  return \<open>inserted = 0\<close>. The handler takes the truth value of the store handle
  before it counts, and the handle of a configured store refuses that test: the call
  inserts nothing, as claimed, but ends in a 500 instead of the count zero. Here for
  the store that holds the three sample jobs.
\<close>

theorem seed_jobs_nonempty_gives_500:
  "length (colls_of seeded_world ''job'') = 3 \<and>
   truth_of_db (db seeded_world) = Inl NotImplementedError \<and>
   fst (seed_jobs seeded_world) = Inl (HTTPException 500 (StrOf NotImplementedError)) \<and>
   snd (seed_jobs seeded_world) = seeded_world"
  by (simp add: seed_jobs_always_500 seeded_world_def colls_of_def coll_def samples_def
      truth_of_db_def)

text \<open>
  Claim C7. With an empty job collection a seed call is to insert the three sample
  jobs and to return the count 3. The handler takes the truth value of the store
  handle first, and the handle of a configured store refuses that test: the call on a
  configured, empty store ends in a 500 and inserts nothing.
\<close>

theorem seed_jobs_empty_gives_500:
  "colls_of fresh_world ''job'' = [] \<and>
   fst (seed_jobs fresh_world) = Inl (HTTPException 500 (StrOf NotImplementedError)) \<and>
   colls_of (snd (seed_jobs fresh_world)) ''job'' = []"
  by (simp add: seed_jobs_always_500 fresh_world_def colls_of_def coll_def)

section \<open>Effects of a failed operation\<close>





section \<open>Listing jobs\<close>

lemma matches_filter_entry:
  "matches (filter_entry k p @ flt) j = (selects k p j \<and> matches flt j)"
  by (auto simp: matches_def filter_entry_def selects_def split: option.splits)

lemma matches_filter_query:
  "matches (filter_query dep typ loc) j =
     (selects ''department'' dep j \<and> selects ''type'' typ j \<and> selects ''location'' loc j)"
proof -
  have "matches (filter_entry ''location'' loc) j = selects ''location'' loc j"
    using matches_filter_entry [of "''location''" loc "[]" j] by (simp add: matches_def)
  then show ?thesis
    by (simp add: filter_query_def matches_filter_entry)
qed

text \<open>
  Claim C4, as stated: the records returned are exactly those whose fields equal every
  supplied value. It fails when a parameter is supplied as the empty string: no job of
  the seeded store has the department \<open>''\<close>, and the request for that department
  returns all three.
\<close>

theorem list_jobs_empty_department_returns_all:
  "fst (list_jobs (Some '''') None None seeded_world) =
     Inr (map (serialize_doc \<circ> Some) (colls_of seeded_world ''job'')) \<and>
   length (colls_of seeded_world ''job'') = 3 \<and>
   filter (matches [(''department'', VStr '''')]) (colls_of seeded_world ''job'') = []"
  by (simp add: seeded_world_def list_jobs_def get_documents_def filter_query_def
      filter_entry_def store_op_def no_faults_def matches_def colls_of_def coll_def samples_def
      Job_doc_def)

text \<open>
  Claim C4, amended. When the store answers, \<open>list_jobs\<close> returns, in the store's
  order and serialized, exactly the job records whose fields equal every parameter
  supplied with a non-empty value; a parameter that is absent or the empty string
  imposes no constraint, so that a call with no such parameter returns every job.
\<close>

theorem list_jobs_selects:
  assumes "db w = Some s" and "faults w (clock w) = None"
  shows "fst (list_jobs dep typ loc w) =
     Inr (map (\<lambda>j. serialize_doc (Some j))
            (filter (\<lambda>j. selects ''department'' dep j \<and> selects ''type'' typ j \<and>
                         selects ''location'' loc j)
               (coll s ''job'')))"
proof -
  have "matches (filter_query dep typ loc) =
      (\<lambda>j. selects ''department'' dep j \<and> selects ''type'' typ j \<and> selects ''location'' loc j)"
    by (rule ext) (rule matches_filter_query)
  then show ?thesis
    using assms by (simp add: list_jobs_def get_documents_def store_op_def)
qed

theorem list_jobs_selects_witness:
  "faults seeded_world (clock seeded_world) = None \<and>
   fst (list_jobs (Some ''Engineering'') None (Some ''Remote'') seeded_world) =
     Inr [serialize_doc (Some (Job_doc (samples ! 0) @ [(''_id'', VOid 0)]))] \<and>
   fst (list_jobs None (Some '''') (Some ''Remote'') seeded_world) =
     Inr [serialize_doc (Some (Job_doc (samples ! 0) @ [(''_id'', VOid 0)])),
          serialize_doc (Some (Job_doc (samples ! 2) @ [(''_id'', VOid 2)]))]"
proof -
  have a: "db seeded_world = Some \<lparr>db_name = ''stuvify'',
         collections =
           [(''job'', map (\<lambda>(i, j). Job_doc j @ [(''_id'', VOid i)]) (zip [0, 1, 2] samples))],
         next_oid = 3\<rparr>"
    by (simp add: seeded_world_def)
  have b: "faults seeded_world (clock seeded_world) = None"
    by (simp add: seeded_world_def no_faults_def)
  show ?thesis
    using list_jobs_selects [OF a b, of "Some ''Engineering''" None "Some ''Remote''"]
      list_jobs_selects [OF a b, of None "Some ''''" "Some ''Remote''"] b
    by (simp add: coll_def samples_def selects_def Job_doc_def)
qed


end
